theory Spec2Isabelle
  imports Main
begin

section \<open>Deployment smoke test (deployment/test-deployment.py)\<close>

text \<open>
  The script issues HTTP GET requests and prints to the console. Both effects are made
  explicit. The network is a parameter: it says what the \<open>n\<close>-th GET of a run yields for a
  given request, so that a repeated request to one URL may be answered differently. The
  state that is threaded through the functions holds the log of the requests issued so far
  and the lines printed so far.

  The functions are given twice. Under the names of the source they describe the runs in
  which every GET answers or raises an instance of Python's \<open>Exception\<close>; the three
  constructors of \<open>exn\<close> name the \<open>except\<close> clause of \<open>test_endpoint\<close> that
  catches it, and every function returns. Under the same names with the suffix
  \<open>_raising\<close> a GET may also raise what \<open>except Exception\<close> does not catch
  (\<open>KeyboardInterrupt\<close>, \<open>SystemExit\<close>); such an exception leaves
  \<open>test_endpoint\<close> and \<open>main\<close>, and only the bare \<open>except\<close> of
  \<open>test_api_health\<close> stops it. The two agree on the runs of the first kind.

  Printing is taken not to fail. ANSI colour codes, leading newlines and the non-ASCII
  pictographs of the printed texts are not represented.
\<close>

subsection \<open>Configuration\<close>

record config =
  api_url :: string
  dashboard_url :: string
  auth_mode :: string

definition getenv :: "(string \<rightharpoonup> string) \<Rightarrow> string \<Rightarrow> string \<Rightarrow> string" where
  "getenv env k d = (case env k of None \<Rightarrow> d | Some v \<Rightarrow> v)"

definition load_config :: "(string \<rightharpoonup> string) \<Rightarrow> config" where
  "load_config env =
     \<lparr> api_url = getenv env ''API_URL'' ''https://api.com.caramelme.com'',
       dashboard_url = getenv env ''DASHBOARD_URL'' ''https://dashboard.com.caramelme.com'',
       auth_mode = getenv env ''AUTH_MODE'' ''multi-tenant'' \<rparr>"

subsection \<open>Network and console\<close>

record request =
  url :: string
  timeout :: int
  allow_redirects :: bool

record response =
  status_code :: int
  json :: "string option"  \<comment> \<open>the body as JSON; \<open>None\<close> when \<open>response.json()\<close> raises\<close>

datatype exn = ConnectionError | Timeout | OtherException string

type_synonym network = "nat \<Rightarrow> request \<Rightarrow> exn + response"

datatype line =
    Rule
  | Title string
  | Plain string
  | ConfigValue string string
  | Testing string string
  | Success int
  | OK int
  | Failed int
  | ConnectionFailed
  | TimeoutAfter int
  | Error string
  | HealthJson string
  | ResultLine string bool
  | Total int int

record world =
  gets :: "request list"
  out :: "line list"

definition print :: "line \<Rightarrow> world \<Rightarrow> world" where
  "print l s = s\<lparr>out := out s @ [l]\<rparr>"

definition requests_get :: "network \<Rightarrow> request \<Rightarrow> world \<Rightarrow> (exn + response) \<times> world" where
  "requests_get net rq s = (net (length (gets s)) rq, s\<lparr>gets := gets s @ [rq]\<rparr>)"

definition print_header :: "string \<Rightarrow> world \<Rightarrow> world" where
  "print_header title s = print Rule (print (Title title) (print Rule s))"

subsection \<open>The generic endpoint check\<close>

text \<open>
  The body of the \<open>try\<close> block of \<open>test_endpoint\<close>: \<open>Inl\<close> is an exception leaving
  the block, \<open>Inr\<close> a \<open>return\<close> inside it.
\<close>

definition test_endpoint_try ::
  "network \<Rightarrow> string \<Rightarrow> string \<Rightarrow> int \<Rightarrow> int \<Rightarrow> world \<Rightarrow> (exn \<times> world) + (bool \<times> world)" where
  "test_endpoint_try net u name expected_status tmo s =
     (let s1 = print (Testing name u) s;
          (r, s2) = requests_get net \<lparr>url = u, timeout = tmo, allow_redirects = True\<rparr> s1
      in case r of
           Inl e \<Rightarrow> Inl (e, s2)
         | Inr response \<Rightarrow>
             if status_code response = expected_status
             then Inr (True, print (Success (status_code response)) s2)
             else if status_code response \<in> set [200, 301, 302, 304]
             then Inr (True, print (OK (status_code response)) s2)
             else Inr (False, print (Failed (status_code response)) s2))"

definition test_endpoint ::
  "network \<Rightarrow> string \<Rightarrow> string \<Rightarrow> int \<Rightarrow> int \<Rightarrow> world \<Rightarrow> bool \<times> world" where
  "test_endpoint net u name expected_status tmo s =
     (case test_endpoint_try net u name expected_status tmo s of
        Inr r \<Rightarrow> r
      | Inl (ConnectionError, s') \<Rightarrow> (False, print ConnectionFailed s')
      | Inl (Timeout, s') \<Rightarrow> (False, print (TimeoutAfter tmo) s')
      | Inl (OtherException msg, s') \<Rightarrow> (False, print (Error msg) s'))"

subsection \<open>The health check\<close>

text \<open>
  The \<open>try\<close> block of \<open>test_api_health\<close> has three ways out: an exception
  (\<open>Inl\<close>, also when the body is not JSON), a \<open>return\<close> (\<open>Inr (Some b)\<close>), and its end
  (\<open>Inr None\<close>) when the status is not 200. The bare \<open>except\<close> swallows every exception,
  and whatever did not return goes on to \<open>test_endpoint\<close>.
\<close>

definition test_api_health_try ::
  "network \<Rightarrow> string \<Rightarrow> world \<Rightarrow> (exn + bool option) \<times> world" where
  "test_api_health_try net u s =
     (let (r, s1) = requests_get net \<lparr>url = u, timeout = 10, allow_redirects = True\<rparr> s
      in case r of
           Inl e \<Rightarrow> (Inl e, s1)
         | Inr response \<Rightarrow>
             if status_code response = 200
             then (case json response of
                     None \<Rightarrow> (Inl (OtherException ''JSONDecodeError''), s1)
                   | Some data \<Rightarrow> (Inr (Some True), print (HealthJson data) s1))
             else (Inr None, s1))"

definition test_api_health :: "network \<Rightarrow> config \<Rightarrow> world \<Rightarrow> bool \<times> world" where
  "test_api_health net cfg s =
     (let u = api_url cfg @ ''/health''
      in case test_api_health_try net u s of
           (Inr (Some b), s1) \<Rightarrow> (b, s1)
         | (Inr None, s1) \<Rightarrow> test_endpoint net u ''API Health'' 200 10 s1
         | (Inl e, s1) \<Rightarrow> test_endpoint net u ''API Health'' 200 10 s1)"

definition test_dashboard :: "network \<Rightarrow> config \<Rightarrow> world \<Rightarrow> bool \<times> world" where
  "test_dashboard net cfg s = test_endpoint net (dashboard_url cfg) ''Dashboard'' 200 10 s"

definition test_api_root :: "network \<Rightarrow> config \<Rightarrow> world \<Rightarrow> bool \<times> world" where
  "test_api_root net cfg s = test_endpoint net (api_url cfg) ''API Root'' 200 10 s"

subsection \<open>The orchestrator\<close>

text \<open>
  \<open>main\<close> is given in three parts: the banner, the checks that build the local list
  \<open>results\<close>, and the summary that computes the exit code from it.
\<close>

type_synonym results = "(string \<times> bool) list"

definition main_banner :: "config \<Rightarrow> world \<Rightarrow> world" where
  "main_banner cfg s =
     (let s = print_header ''Dittofeed Deployment Test'' s;
          s = print (Plain ''Configuration:'') s;
          s = print (ConfigValue ''API URL'' (api_url cfg)) s;
          s = print (ConfigValue ''Dashboard URL'' (dashboard_url cfg)) s
      in print (ConfigValue ''Auth Mode'' (auth_mode cfg)) s)"

definition main_checks :: "network \<Rightarrow> config \<Rightarrow> world \<Rightarrow> results \<times> world" where
  "main_checks net cfg s =
     (let results = [];
          s = print_header ''1. External Endpoint Tests'' s;
          (b, s) = test_api_health net cfg s;
          results = results @ [(''API Health'', b)];
          (b, s) = test_api_root net cfg s;
          results = results @ [(''API Root'', b)];
          (b, s) = test_dashboard net cfg s;
          results = results @ [(''Dashboard'', b)]
      in if auth_mode cfg = ''multi-tenant''
         then (let s = print_header ''2. Multi-Tenant Endpoints'' s;
                   (b, s) = test_endpoint net (api_url cfg @ ''/api/workspaces'')
                              ''Workspaces API'' 200 10 s
               in (results @ [(''Workspaces'', b)], s))
         else (results, s))"

definition print_results :: "results \<Rightarrow> world \<Rightarrow> world" where
  "print_results rs s = foldl (\<lambda>s (name, result). print (ResultLine name result) s) s rs"

definition main_summary :: "config \<Rightarrow> results \<Rightarrow> world \<Rightarrow> int \<times> world" where
  "main_summary cfg rs s =
     (let s = print_header ''Test Summary'' s;
          passed = (\<Sum>(_, result) \<leftarrow> filter snd rs. (1::int));
          total = int (length rs);
          s = print (Plain ''Results:'') s;
          s = print_results rs s;
          s = print (Total passed total) s
      in if passed = total
         then (0, foldl (\<lambda>s l. print l s) s
                 [Plain ''All tests passed! Deployment is operational.'',
                  Plain ''Access your Dittofeed instance:'',
                  ConfigValue ''Dashboard'' (dashboard_url cfg),
                  ConfigValue ''API'' (api_url cfg)])
         else (1, foldl (\<lambda>s l. print l s) s
                 [Plain ''Some tests failed. Check the logs above.'',
                  Plain ''Troubleshooting:'',
                  Plain ''1. Verify Cloudflare tunnel is connected'',
                  Plain ''2. Check if all services are running in Coolify'',
                  Plain ''3. Ensure DATABASE_URL is properly formatted'',
                  Plain ''4. Verify PostgreSQL database 'dittofeed' exists'']))"

definition main :: "network \<Rightarrow> config \<Rightarrow> world \<Rightarrow> int \<times> world" where
  "main net cfg s =
     (let s = main_banner cfg s;
          (rs, s) = main_checks net cfg s
      in main_summary cfg rs s)"

definition main_results :: "network \<Rightarrow> config \<Rightarrow> world \<Rightarrow> results" where
  \<comment> \<open>the local list \<open>results\<close> of \<open>main\<close> when the summary starts\<close>
  "main_results net cfg s = fst (main_checks net cfg (main_banner cfg s))"

subsection \<open>The same functions with exceptions that are not caught\<close>

text \<open>
  \<open>Exception e\<close> is an instance of \<open>Exception\<close>, of the kind \<open>e\<close>;
  \<open>BaseException c\<close> is an instance of the class named \<open>c\<close>, which is not a subclass
  of \<open>Exception\<close>. A result \<open>Inl c\<close> of a function below is such an exception
  leaving the function; \<open>Inr\<close> is what the function returns.
\<close>

datatype raised = Exception exn | BaseException string

type_synonym network_raising = "nat \<Rightarrow> request \<Rightarrow> raised + response"

definition requests_get_raising ::
  "network_raising \<Rightarrow> request \<Rightarrow> world \<Rightarrow> (raised + response) \<times> world" where
  "requests_get_raising net rq s = (net (length (gets s)) rq, s\<lparr>gets := gets s @ [rq]\<rparr>)"

definition test_endpoint_try_raising ::
  "network_raising \<Rightarrow> string \<Rightarrow> string \<Rightarrow> int \<Rightarrow> int \<Rightarrow> world
     \<Rightarrow> (raised \<times> world) + (bool \<times> world)" where
  "test_endpoint_try_raising net u name expected_status tmo s =
     (let s1 = print (Testing name u) s;
          (r, s2) = requests_get_raising net \<lparr>url = u, timeout = tmo, allow_redirects = True\<rparr> s1
      in case r of
           Inl e \<Rightarrow> Inl (e, s2)
         | Inr response \<Rightarrow>
             if status_code response = expected_status
             then Inr (True, print (Success (status_code response)) s2)
             else if status_code response \<in> set [200, 301, 302, 304]
             then Inr (True, print (OK (status_code response)) s2)
             else Inr (False, print (Failed (status_code response)) s2))"

definition test_endpoint_raising ::
  "network_raising \<Rightarrow> string \<Rightarrow> string \<Rightarrow> int \<Rightarrow> int \<Rightarrow> world \<Rightarrow> (string + bool) \<times> world" where
  "test_endpoint_raising net u name expected_status tmo s =
     (case test_endpoint_try_raising net u name expected_status tmo s of
        Inr (b, s') \<Rightarrow> (Inr b, s')
      | Inl (Exception ConnectionError, s') \<Rightarrow> (Inr False, print ConnectionFailed s')
      | Inl (Exception Timeout, s') \<Rightarrow> (Inr False, print (TimeoutAfter tmo) s')
      | Inl (Exception (OtherException msg), s') \<Rightarrow> (Inr False, print (Error msg) s')
      | Inl (BaseException c, s') \<Rightarrow> (Inl c, s'))"

definition test_api_health_try_raising ::
  "network_raising \<Rightarrow> string \<Rightarrow> world \<Rightarrow> (raised + bool option) \<times> world" where
  "test_api_health_try_raising net u s =
     (let (r, s1) = requests_get_raising net \<lparr>url = u, timeout = 10, allow_redirects = True\<rparr> s
      in case r of
           Inl e \<Rightarrow> (Inl e, s1)
         | Inr response \<Rightarrow>
             if status_code response = 200
             then (case json response of
                     None \<Rightarrow> (Inl (Exception (OtherException ''JSONDecodeError'')), s1)
                   | Some data \<Rightarrow> (Inr (Some True), print (HealthJson data) s1))
             else (Inr None, s1))"

definition test_api_health_raising ::
  "network_raising \<Rightarrow> config \<Rightarrow> world \<Rightarrow> (string + bool) \<times> world" where
  "test_api_health_raising net cfg s =
     (let u = api_url cfg @ ''/health''
      in case test_api_health_try_raising net u s of
           (Inr (Some b), s1) \<Rightarrow> (Inr b, s1)
         | (Inr None, s1) \<Rightarrow> test_endpoint_raising net u ''API Health'' 200 10 s1
         | (Inl e, s1) \<Rightarrow> test_endpoint_raising net u ''API Health'' 200 10 s1)"

definition test_dashboard_raising ::
  "network_raising \<Rightarrow> config \<Rightarrow> world \<Rightarrow> (string + bool) \<times> world" where
  "test_dashboard_raising net cfg s =
     test_endpoint_raising net (dashboard_url cfg) ''Dashboard'' 200 10 s"

definition test_api_root_raising ::
  "network_raising \<Rightarrow> config \<Rightarrow> world \<Rightarrow> (string + bool) \<times> world" where
  "test_api_root_raising net cfg s = test_endpoint_raising net (api_url cfg) ''API Root'' 200 10 s"

definition main_checks_raising ::
  "network_raising \<Rightarrow> config \<Rightarrow> world \<Rightarrow> (string + results) \<times> world" where
  "main_checks_raising net cfg s =
     (let results = [];
          s = print_header ''1. External Endpoint Tests'' s
      in case test_api_health_raising net cfg s of
           (Inl c, s) \<Rightarrow> (Inl c, s)
         | (Inr b, s) \<Rightarrow>
      (let results = results @ [(''API Health'', b)]
       in case test_api_root_raising net cfg s of
            (Inl c, s) \<Rightarrow> (Inl c, s)
          | (Inr b, s) \<Rightarrow>
      (let results = results @ [(''API Root'', b)]
       in case test_dashboard_raising net cfg s of
            (Inl c, s) \<Rightarrow> (Inl c, s)
          | (Inr b, s) \<Rightarrow>
      (let results = results @ [(''Dashboard'', b)]
       in if auth_mode cfg = ''multi-tenant''
          then (let s = print_header ''2. Multi-Tenant Endpoints'' s
                in case test_endpoint_raising net (api_url cfg @ ''/api/workspaces'')
                          ''Workspaces API'' 200 10 s of
                     (Inl c, s) \<Rightarrow> (Inl c, s)
                   | (Inr b, s) \<Rightarrow> (Inr (results @ [(''Workspaces'', b)]), s))
          else (Inr results, s)))))"

definition main_raising :: "network_raising \<Rightarrow> config \<Rightarrow> world \<Rightarrow> (string + int) \<times> world" where
  "main_raising net cfg s =
     (let s = main_banner cfg s
      in case main_checks_raising net cfg s of
           (Inl c, s) \<Rightarrow> (Inl c, s)
         | (Inr rs, s) \<Rightarrow> (case main_summary cfg rs s of (code, s) \<Rightarrow> (Inr code, s)))"

definition main_results_raising :: "network_raising \<Rightarrow> config \<Rightarrow> world \<Rightarrow> string + results" where
  "main_results_raising net cfg s = fst (main_checks_raising net cfg (main_banner cfg s))"

subsection \<open>Notions used to state the properties\<close>

abbreviation req :: "string \<Rightarrow> request" where
  "req u \<equiv> \<lparr>url = u, timeout = 10, allow_redirects = True\<rparr>"

text \<open>The pass rule of the generic check, as a function of what the GET yields.\<close>

definition passes :: "int \<Rightarrow> exn + response \<Rightarrow> bool" where
  "passes e r =
     (case r of Inl x \<Rightarrow> False
      | Inr resp \<Rightarrow> status_code resp = e \<or> status_code resp \<in> {200, 301, 302, 304})"

text \<open>The first GET of the health check is answered with status 200 and a JSON body.\<close>

definition health_ok :: "exn + response \<Rightarrow> bool" where
  "health_ok r =
     (case r of Inl x \<Rightarrow> False
      | Inr resp \<Rightarrow> status_code resp = 200 \<and> json resp \<noteq> None)"

text \<open>The number of GETs the health check issues when it starts as request number \<open>n\<close>.\<close>

definition health_requests :: "network \<Rightarrow> config \<Rightarrow> nat \<Rightarrow> nat" where
  "health_requests net cfg n =
     (if health_ok (net n (req (api_url cfg @ ''/health''))) then 1 else 2)"

text \<open>The (passed, total) pairs of the summary lines among the printed lines.\<close>

fun totals :: "line list \<Rightarrow> (int \<times> int) list" where
  "totals [] = []"
| "totals (Total p t # ls) = (p, t) # totals ls"
| "totals (l # ls) = totals ls"

text \<open>The pass rule again, for a GET that may raise anything.\<close>

definition passes_raising :: "int \<Rightarrow> raised + response \<Rightarrow> bool" where
  "passes_raising e r =
     (case r of Inl x \<Rightarrow> False
      | Inr resp \<Rightarrow> status_code resp = e \<or> status_code resp \<in> {200, 301, 302, 304})"

text \<open>
  What a GET yields, as the bare \<open>except\<close> sees it: an exception outside
  \<open>Exception\<close> counts as one more exception of no particular kind. \<open>caught net\<close>
  is the network \<open>net\<close> seen this way.
\<close>

definition as_exception :: "raised + response \<Rightarrow> exn + response" where
  "as_exception r =
     (case r of
        Inl (Exception e) \<Rightarrow> Inl e
      | Inl (BaseException c) \<Rightarrow> Inl (OtherException c)
      | Inr resp \<Rightarrow> Inr resp)"

definition caught :: "network_raising \<Rightarrow> network" where
  "caught net n rq = as_exception (net n rq)"

subsection \<open>Example runs\<close>

definition cfg_multi :: config where
  "cfg_multi = \<lparr>api_url = ''http://api'', dashboard_url = ''http://dash'',
                 auth_mode = ''multi-tenant''\<rparr>"

definition cfg_single :: config where
  "cfg_single = \<lparr>api_url = ''http://api'', dashboard_url = ''http://dash'',
                  auth_mode = ''single-tenant''\<rparr>"

definition world0 :: world where
  "world0 = \<lparr>gets = [], out = []\<rparr>"

definition net_ok :: network where
  "net_ok n rq = Inr \<lparr>status_code = 200, json = Some ''{}''\<rparr>"

definition net_500 :: network where
  "net_500 n rq = Inr \<lparr>status_code = 500, json = None\<rparr>"

definition net_404 :: network where
  "net_404 n rq = Inr \<lparr>status_code = 404, json = None\<rparr>"

text \<open>A server that answers the first request with a page that is not JSON and fails afterwards.\<close>

definition net_flaky :: network where
  "net_flaky n rq =
     (if n = 0 then Inr \<lparr>status_code = 200, json = None\<rparr>
      else Inr \<lparr>status_code = 500, json = None\<rparr>)"



text \<open>The first GET of the run is interrupted; the others answer.\<close>

definition net_interrupt_health :: network_raising where
  "net_interrupt_health n rq =
     (if n = 0 then Inl (BaseException ''KeyboardInterrupt'')
      else Inr \<lparr>status_code = 200, json = Some ''{}''\<rparr>)"

text \<open>Every GET is interrupted from the keyboard.\<close>

definition net_interrupt :: network_raising where
  "net_interrupt n rq = Inl (BaseException ''KeyboardInterrupt'')"

text \<open>The second GET of the run is interrupted; the others answer.\<close>

definition net_interrupt_root :: network_raising where
  "net_interrupt_root n rq =
     (if n = 1 then Inl (BaseException ''KeyboardInterrupt'')
      else Inr \<lparr>status_code = 200, json = Some ''{}''\<rparr>)"

text \<open>The API host refuses connections; the dashboard answers.\<close>

definition net_api_refused :: network_raising where
  "net_api_refused n rq =
     (if url rq = ''http://dash'' then Inr \<lparr>status_code = 200, json = None\<rparr>
      else Inl (Exception ConnectionError))"

section \<open>Properties\<close>

subsection \<open>Configuration defaults\<close>

lemma load_config_default:
  "load_config Map.empty =
     \<lparr>api_url = ''https://api.com.caramelme.com'',
      dashboard_url = ''https://dashboard.com.caramelme.com'',
      auth_mode = ''multi-tenant''\<rparr>"
  by (simp add: load_config_def getenv_def)

lemma load_config_auth_mode:
  "auth_mode (load_config env) =
     (case env ''AUTH_MODE'' of None \<Rightarrow> ''multi-tenant'' | Some v \<Rightarrow> v)"
  by (simp add: load_config_def getenv_def)

subsection \<open>Console and request log\<close>

lemma gets_print [simp]: "gets (print l s) = gets s"
  by (simp add: print_def)

lemma out_print [simp]: "out (print l s) = out s @ [l]"
  by (simp add: print_def)

lemma gets_print_header [simp]: "gets (print_header t s) = gets s"
  by (simp add: print_header_def)

lemma out_print_header [simp]: "out (print_header t s) = out s @ [Rule, Title t, Rule]"
  by (simp add: print_header_def)

lemma totals_append: "totals (xs @ ys) = totals xs @ totals ys"
  by (induction xs rule: totals.induct) simp_all

lemma gets_main_banner: "gets (main_banner cfg s) = gets s"
  by (simp add: main_banner_def Let_def)

lemma totals_main_banner: "totals (out (main_banner cfg s)) = totals (out s)"
  by (simp add: main_banner_def Let_def totals_append)

lemma out_print_results:
  "out (print_results rs s) = out s @ map (\<lambda>(name, result). ResultLine name result) rs"
  unfolding print_results_def
  by (induction rs arbitrary: s) (simp_all add: case_prod_beta)

lemma gets_print_results: "gets (print_results rs s) = gets s"
  unfolding print_results_def
  by (induction rs arbitrary: s) (simp_all add: case_prod_beta)

lemma totals_result_lines: "totals (map (\<lambda>(name, result). ResultLine name result) rs) = []"
  by (induction rs) (simp_all add: case_prod_beta)

subsection \<open>What one generic check does\<close>

lemma test_endpoint_fst:
  "fst (test_endpoint net u name e t s) =
     passes e (net (length (gets s)) \<lparr>url = u, timeout = t, allow_redirects = True\<rparr>)"
  by (simp add: test_endpoint_def test_endpoint_try_def requests_get_def Let_def passes_def
           split: sum.splits exn.splits)

lemma test_endpoint_gets:
  "gets (snd (test_endpoint net u name e t s)) =
     gets s @ [\<lparr>url = u, timeout = t, allow_redirects = True\<rparr>]"
  by (simp add: test_endpoint_def test_endpoint_try_def requests_get_def Let_def
           split: sum.splits exn.splits)

lemma test_endpoint_out:
  "out (snd (test_endpoint net u name e t s)) =
     out s @ [Testing name u,
       (case net (length (gets s)) \<lparr>url = u, timeout = t, allow_redirects = True\<rparr> of
          Inl ConnectionError \<Rightarrow> ConnectionFailed
        | Inl Timeout \<Rightarrow> TimeoutAfter t
        | Inl (OtherException m) \<Rightarrow> Error m
        | Inr r \<Rightarrow> if status_code r = e then Success (status_code r)
                   else if status_code r \<in> {200, 301, 302, 304} then OK (status_code r)
                   else Failed (status_code r))]"
  by (simp add: test_endpoint_def test_endpoint_try_def requests_get_def Let_def
           split: sum.splits exn.splits)

lemma test_endpoint_totals:
  "totals (out (snd (test_endpoint net u name e t s))) = totals (out s)"
  by (simp add: test_endpoint_out totals_append split: sum.splits exn.splits)

subsection \<open>What the health check does\<close>

lemma test_api_health_fst:
  "fst (test_api_health net cfg s) =
     (health_ok (net (length (gets s)) (req (api_url cfg @ ''/health''))) \<or>
      passes 200 (net (Suc (length (gets s))) (req (api_url cfg @ ''/health''))))"
  by (auto simp add: test_api_health_def test_api_health_try_def requests_get_def Let_def
        health_ok_def test_endpoint_fst split: sum.splits option.splits)

lemma test_api_health_gets:
  "gets (snd (test_api_health net cfg s)) =
     gets s @ replicate (health_requests net cfg (length (gets s)))
                (req (api_url cfg @ ''/health''))"
  by (auto simp add: test_api_health_def test_api_health_try_def requests_get_def Let_def
        health_ok_def health_requests_def test_endpoint_gets numeral_2_eq_2
        split: sum.splits option.splits)

lemma test_api_health_out:
  "\<exists>ls. out (snd (test_api_health net cfg s)) = out s @ ls \<and> totals ls = []"
  by (auto simp add: test_api_health_def test_api_health_try_def requests_get_def Let_def
        test_endpoint_out split: sum.splits option.splits exn.splits)

lemma test_api_health_totals:
  "totals (out (snd (test_api_health net cfg s))) = totals (out s)"
  using test_api_health_out [of net cfg s] by (auto simp add: totals_append)

subsection \<open>What the orchestrator does\<close>

lemma main_checks_gets:
  "gets (snd (main_checks net cfg s)) =
     gets s @ replicate (health_requests net cfg (length (gets s)))
                (req (api_url cfg @ ''/health''))
       @ [req (api_url cfg), req (dashboard_url cfg)]
       @ (if auth_mode cfg = ''multi-tenant'' then [req (api_url cfg @ ''/api/workspaces'')]
          else [])"
  by (simp add: main_checks_def Let_def case_prod_beta test_api_root_def test_dashboard_def
        test_endpoint_gets test_api_health_gets)

lemma main_checks_fst:
  "fst (main_checks net cfg s) =
     (let n = length (gets s); k = health_requests net cfg n in
      [(''API Health'', health_ok (net n (req (api_url cfg @ ''/health''))) \<or>
                        passes 200 (net (Suc n) (req (api_url cfg @ ''/health'')))),
       (''API Root'', passes 200 (net (n + k) (req (api_url cfg)))),
       (''Dashboard'', passes 200 (net (n + k + 1) (req (dashboard_url cfg))))]
      @ (if auth_mode cfg = ''multi-tenant''
         then [(''Workspaces'',
                passes 200 (net (n + k + 2) (req (api_url cfg @ ''/api/workspaces''))))]
         else []))"
  by (simp add: main_checks_def Let_def case_prod_beta test_api_root_def test_dashboard_def
        test_endpoint_gets test_endpoint_fst test_api_health_gets test_api_health_fst)

lemma main_checks_totals:
  "totals (out (snd (main_checks net cfg s))) = totals (out s)"
  by (simp add: main_checks_def Let_def case_prod_beta test_api_root_def test_dashboard_def
        test_endpoint_totals test_api_health_totals totals_append)

lemma passed_count:
  "(\<Sum>(_, result) \<leftarrow> filter snd rs. (1::int)) = int (length (filter snd rs))"
  by (induction rs) (simp_all add: case_prod_beta)

lemma all_passed: "length (filter snd rs) = length rs \<longleftrightarrow> (\<forall>r \<in> set rs. snd r)"
  by (metis filter_True length_filter_less less_irrefl_nat filter_id_conv)

lemma main_summary_fst:
  "fst (main_summary cfg rs s) = (if \<forall>r \<in> set rs. snd r then 0 else 1)"
  by (simp add: main_summary_def Let_def passed_count all_passed)

lemma main_summary_out:
  "\<exists>ls. out (snd (main_summary cfg rs s)) =
     out s @ [Rule, Title ''Test Summary'', Rule, Plain ''Results:'']
       @ map (\<lambda>(name, result). ResultLine name result) rs
       @ [Total (int (length (filter snd rs))) (int (length rs))] @ ls \<and> totals ls = []"
  by (simp add: main_summary_def Let_def passed_count out_print_results)

lemma main_summary_gets: "gets (snd (main_summary cfg rs s)) = gets s"
  by (simp add: main_summary_def Let_def gets_print_results)

lemma main_checks_names:
  "map fst (fst (main_checks net cfg s)) =
     [''API Health'', ''API Root'', ''Dashboard'']
       @ (if auth_mode cfg = ''multi-tenant'' then [''Workspaces''] else [])"
  by (simp add: main_checks_fst Let_def)

lemma main_checks_length:
  "length (fst (main_checks net cfg s)) = (if auth_mode cfg = ''multi-tenant'' then 4 else 3)"
  by (simp add: main_checks_fst Let_def)

lemma health_requests_cases:
  "health_requests net cfg n = 1 \<or> health_requests net cfg n = 2"
  by (simp add: health_requests_def)

lemma main_checks_out_ext:
  "\<exists>ls. out (snd (main_checks net cfg s)) = out s @ ls"
proof -
  let ?s0 = "print_header ''1. External Endpoint Tests'' s"
  obtain l1 where l1: "out (snd (test_api_health net cfg ?s0)) = out ?s0 @ l1"
    using test_api_health_out by blast
  show ?thesis
    by (simp add: main_checks_def Let_def case_prod_beta test_api_root_def test_dashboard_def
        test_endpoint_out l1)
qed

lemma main_gets:
  "gets (snd (main net cfg s)) =
     gets s @ replicate (health_requests net cfg (length (gets s)))
                (req (api_url cfg @ ''/health''))
       @ [req (api_url cfg), req (dashboard_url cfg)]
       @ (if auth_mode cfg = ''multi-tenant'' then [req (api_url cfg @ ''/api/workspaces'')]
          else [])"
  by (simp add: main_def Let_def case_prod_beta main_summary_gets main_checks_gets
        gets_main_banner)

lemma main_results_eq:
  "main_results net cfg s =
     (let n = length (gets s); k = health_requests net cfg n in
      [(''API Health'', health_ok (net n (req (api_url cfg @ ''/health''))) \<or>
                        passes 200 (net (Suc n) (req (api_url cfg @ ''/health'')))),
       (''API Root'', passes 200 (net (n + k) (req (api_url cfg)))),
       (''Dashboard'', passes 200 (net (n + k + 1) (req (dashboard_url cfg))))]
      @ (if auth_mode cfg = ''multi-tenant''
         then [(''Workspaces'',
                passes 200 (net (n + k + 2) (req (api_url cfg @ ''/api/workspaces''))))]
         else []))"
  by (simp add: main_results_def main_checks_fst gets_main_banner)

lemma main_out:
  "\<exists>pre post. out (snd (main net cfg s)) =
     out s @ pre @ [Rule, Title ''Test Summary'', Rule, Plain ''Results:'']
       @ map (\<lambda>(name, result). ResultLine name result) (main_results net cfg s)
       @ [Total (int (length (filter snd (main_results net cfg s))))
                (int (length (main_results net cfg s)))] @ post"
proof -
  let ?b = "main_banner cfg s"
  let ?c = "main_checks net cfg ?b"
  obtain l0 where l0: "out ?b = out s @ l0"
    by (simp add: main_banner_def Let_def)
  obtain l1 where l1: "out (snd ?c) = out ?b @ l1"
    using main_checks_out_ext by blast
  obtain l2 where l2: "out (snd (main_summary cfg (fst ?c) (snd ?c))) =
     out (snd ?c) @ [Rule, Title ''Test Summary'', Rule, Plain ''Results:'']
       @ map (\<lambda>(name, result). ResultLine name result) (fst ?c)
       @ [Total (int (length (filter snd (fst ?c)))) (int (length (fst ?c)))] @ l2"
    using main_summary_out by blast
  have "out (snd (main net cfg s)) = out (snd (main_summary cfg (fst ?c) (snd ?c)))"
    by (simp add: main_def Let_def case_prod_beta)
  then have "out (snd (main net cfg s)) =
     out s @ (l0 @ l1) @ [Rule, Title ''Test Summary'', Rule, Plain ''Results:'']
       @ map (\<lambda>(name, result). ResultLine name result) (main_results net cfg s)
       @ [Total (int (length (filter snd (main_results net cfg s))))
                (int (length (main_results net cfg s)))] @ l2"
    by (simp add: l0 l1 l2 main_results_def)
  then show ?thesis by blast
qed

lemma main_totals:
  "totals (out (snd (main net cfg s))) =
     totals (out s) @ [(int (length (filter snd (main_results net cfg s))),
                        int (length (main_results net cfg s)))]"
proof -
  let ?c = "main_checks net cfg (main_banner cfg s)"
  obtain l2 where l2: "out (snd (main_summary cfg (fst ?c) (snd ?c))) =
     out (snd ?c) @ [Rule, Title ''Test Summary'', Rule, Plain ''Results:'']
       @ map (\<lambda>(name, result). ResultLine name result) (fst ?c)
       @ [Total (int (length (filter snd (fst ?c)))) (int (length (fst ?c)))] @ l2"
    and t2: "totals l2 = []"
    using main_summary_out by blast
  have "out (snd (main net cfg s)) = out (snd (main_summary cfg (fst ?c) (snd ?c)))"
    by (simp add: main_def Let_def case_prod_beta)
  then show ?thesis
    by (simp add: l2 t2 totals_append totals_result_lines main_checks_totals
        totals_main_banner main_results_def)
qed

subsection \<open>Runs in which no exception leaves the checks\<close>

lemma main_completed_run:
  "map fst (main_results net cfg s) =
     [''API Health'', ''API Root'', ''Dashboard'']
       @ (if auth_mode cfg = ''multi-tenant'' then [''Workspaces''] else [])
   \<and> set ([req (api_url cfg @ ''/health''), req (api_url cfg), req (dashboard_url cfg)]
           @ (if auth_mode cfg = ''multi-tenant'' then [req (api_url cfg @ ''/api/workspaces'')]
              else []))
       \<subseteq> set (drop (length (gets s)) (gets (snd (main net cfg s))))
   \<and> (\<exists>pre post. out (snd (main net cfg s)) =
         out s @ pre @ [Rule, Title ''Test Summary'', Rule, Plain ''Results:'']
           @ map (\<lambda>(name, result). ResultLine name result) (main_results net cfg s)
           @ [Total (int (length (filter snd (main_results net cfg s))))
                    (int (length (main_results net cfg s)))] @ post)
   \<and> ((\<forall>n. net n (req (api_url cfg @ ''/health'')) = Inl ConnectionError
            \<and> net n (req (api_url cfg)) = Inl ConnectionError) \<longrightarrow>
        take 3 (main_results net cfg s) =
          [(''API Health'', False), (''API Root'', False),
           (''Dashboard'', passes 200 (net (length (gets s) + 3) (req (dashboard_url cfg))))]
        \<and> gets (snd (main net cfg s)) ! (length (gets s) + 3) = req (dashboard_url cfg))"
proof (intro conjI impI)
  show "map fst (main_results net cfg s) =
     [''API Health'', ''API Root'', ''Dashboard'']
       @ (if auth_mode cfg = ''multi-tenant'' then [''Workspaces''] else [])"
    by (simp add: main_results_def main_checks_names)
  show "set ([req (api_url cfg @ ''/health''), req (api_url cfg), req (dashboard_url cfg)]
           @ (if auth_mode cfg = ''multi-tenant'' then [req (api_url cfg @ ''/api/workspaces'')]
              else []))
       \<subseteq> set (drop (length (gets s)) (gets (snd (main net cfg s))))"
    using health_requests_cases [of net cfg "length (gets s)"]
    by (auto simp add: main_gets)
  show "\<exists>pre post. out (snd (main net cfg s)) =
         out s @ pre @ [Rule, Title ''Test Summary'', Rule, Plain ''Results:'']
           @ map (\<lambda>(name, result). ResultLine name result) (main_results net cfg s)
           @ [Total (int (length (filter snd (main_results net cfg s))))
                    (int (length (main_results net cfg s)))] @ post"
    by (rule main_out)
next
  assume down: "\<forall>n. net n (req (api_url cfg @ ''/health'')) = Inl ConnectionError
            \<and> net n (req (api_url cfg)) = Inl ConnectionError"
  then have k: "health_requests net cfg (length (gets s)) = 2"
    by (simp add: health_requests_def health_ok_def)
  show "take 3 (main_results net cfg s) =
          [(''API Health'', False), (''API Root'', False),
           (''Dashboard'', passes 200 (net (length (gets s) + 3) (req (dashboard_url cfg))))]"
    using down by (simp add: main_results_eq k Let_def health_ok_def passes_def numeral_3_eq_3)
  show "gets (snd (main net cfg s)) ! (length (gets s) + 3) = req (dashboard_url cfg)"
    by (simp add: main_gets k nth_append numeral_2_eq_2)
qed

lemma test_endpoint_raising_caught:
  assumes "\<And>c. net (length (gets s)) \<lparr>url = u, timeout = t, allow_redirects = True\<rparr>
              \<noteq> Inl (BaseException c)"
  shows "test_endpoint_raising net u name e t s =
           (Inr (fst (test_endpoint (caught net) u name e t s)),
            snd (test_endpoint (caught net) u name e t s))"
  using assms
  by (simp add: test_endpoint_raising_def test_endpoint_try_raising_def
        requests_get_raising_def test_endpoint_def test_endpoint_try_def requests_get_def
        caught_def as_exception_def Let_def split: sum.splits raised.splits exn.splits)

lemma test_api_health_raising_caught:
  assumes "\<And>c. net (Suc (length (gets s))) (req (api_url cfg @ ''/health''))
              \<noteq> Inl (BaseException c)"
  shows "test_api_health_raising net cfg s =
           (Inr (fst (test_api_health (caught net) cfg s)),
            snd (test_api_health (caught net) cfg s))"
proof -
  let ?s1 = "s\<lparr>gets := gets s @ [req (api_url cfg @ ''/health'')]\<rparr>"
  have fb: "test_endpoint_raising net (api_url cfg @ ''/health'') ''API Health'' 200 10 ?s1 =
      (Inr (fst (test_endpoint (caught net) (api_url cfg @ ''/health'') ''API Health'' 200 10 ?s1)),
       snd (test_endpoint (caught net) (api_url cfg @ ''/health'') ''API Health'' 200 10 ?s1))"
    using assms by (intro test_endpoint_raising_caught) simp
  show ?thesis
    by (simp add: test_api_health_raising_def test_api_health_try_raising_def
        requests_get_raising_def test_api_health_def test_api_health_try_def requests_get_def
        caught_def [of net "length (gets s)"] as_exception_def Let_def fb
        split: sum.splits raised.splits option.splits)
qed

lemma passes_caught: "passes e (caught net n rq) = passes_raising e (net n rq)"
  by (simp add: passes_def passes_raising_def caught_def as_exception_def
        split: sum.splits raised.splits)

lemma test_api_health_length:
  "length (gets s) < length (gets (snd (test_api_health net cfg s)))"
  using health_requests_cases [of net cfg "length (gets s)"]
  by (auto simp add: test_api_health_gets)

lemma main_checks_raising_caught:
  assumes free: "\<And>n rq c. length (gets s) < n \<Longrightarrow> net n rq \<noteq> Inl (BaseException c)"
  shows "main_checks_raising net cfg s =
           (Inr (fst (main_checks (caught net) cfg s)), snd (main_checks (caught net) cfg s))"
proof -
  let ?s0 = "print_header ''1. External Endpoint Tests'' s"
  let ?H = "test_api_health (caught net) cfg ?s0"
  let ?R = "test_api_root (caught net) cfg (snd ?H)"
  let ?D = "test_dashboard (caught net) cfg (snd ?R)"
  let ?s3 = "print_header ''2. Multi-Tenant Endpoints'' (snd ?D)"
  let ?W = "test_endpoint (caught net) (api_url cfg @ ''/api/workspaces'') ''Workspaces API''
              200 10 ?s3"
  have h: "test_api_health_raising net cfg ?s0 = (Inr (fst ?H), snd ?H)"
    by (rule test_api_health_raising_caught) (simp add: free)
  have g1: "length (gets s) < length (gets (snd ?H))"
    using test_api_health_length [of ?s0 "caught net" cfg] by simp
  have r: "test_api_root_raising net cfg (snd ?H) = (Inr (fst ?R), snd ?R)"
    unfolding test_api_root_raising_def test_api_root_def
    by (rule test_endpoint_raising_caught) (simp add: free g1)
  have g2: "length (gets s) < length (gets (snd ?R))"
    using g1 by (simp add: test_api_root_def test_endpoint_gets)
  have d: "test_dashboard_raising net cfg (snd ?R) = (Inr (fst ?D), snd ?D)"
    unfolding test_dashboard_raising_def test_dashboard_def
    by (rule test_endpoint_raising_caught) (simp add: free g2)
  have g3: "length (gets s) < length (gets (snd ?D))"
    using g2 by (simp add: test_dashboard_def test_endpoint_gets)
  have w: "test_endpoint_raising net (api_url cfg @ ''/api/workspaces'') ''Workspaces API''
              200 10 ?s3 = (Inr (fst ?W), snd ?W)"
    by (rule test_endpoint_raising_caught) (simp add: free g3)
  show ?thesis
    by (simp add: main_checks_raising_def main_checks_def Let_def case_prod_beta h r d w)
qed

lemma main_raising_caught:
  assumes free: "\<And>n rq c. length (gets s) < n \<Longrightarrow> net n rq \<noteq> Inl (BaseException c)"
  shows "main_raising net cfg s =
           (Inr (fst (main (caught net) cfg s)), snd (main (caught net) cfg s))"
    and "main_results_raising net cfg s = Inr (main_results (caught net) cfg s)"
proof -
  have c: "main_checks_raising net cfg (main_banner cfg s) =
      (Inr (fst (main_checks (caught net) cfg (main_banner cfg s))),
       snd (main_checks (caught net) cfg (main_banner cfg s)))"
    by (rule main_checks_raising_caught) (simp add: gets_main_banner free)
  show "main_raising net cfg s =
           (Inr (fst (main (caught net) cfg s)), snd (main (caught net) cfg s))"
    by (simp add: main_raising_def main_def Let_def case_prod_beta c)
  show "main_results_raising net cfg s = Inr (main_results (caught net) cfg s)"
    by (simp add: main_results_raising_def main_results_def c)
qed

subsection \<open>The example runs, evaluated\<close>

lemma main_results_net_ok:
  "main_results net_ok cfg_multi world0 =
     [(''API Health'', True), (''API Root'', True), (''Dashboard'', True), (''Workspaces'', True)]"
  by (simp add: main_results_def main_checks_fst gets_main_banner Let_def health_requests_def
        health_ok_def passes_def net_ok_def cfg_multi_def world0_def)

lemma main_results_net_500:
  "main_results net_500 cfg_single world0 =
     [(''API Health'', False), (''API Root'', False), (''Dashboard'', False)]"
  by (simp add: main_results_def main_checks_fst gets_main_banner Let_def health_requests_def
        health_ok_def passes_def net_500_def cfg_single_def world0_def)


lemma main_raising_net_api_refused:
  "main_results_raising net_api_refused cfg_multi world0 =
     Inr [(''API Health'', False), (''API Root'', False), (''Dashboard'', True),
          (''Workspaces'', False)]"
  "fst (main_raising net_api_refused cfg_multi world0) = Inr 1"
proof -
  have free: "\<And>n rq c. length (gets world0) < n \<Longrightarrow> net_api_refused n rq \<noteq> Inl (BaseException c)"
    by (simp add: net_api_refused_def)
  have rs: "main_results (caught net_api_refused) cfg_multi world0 =
     [(''API Health'', False), (''API Root'', False), (''Dashboard'', True),
      (''Workspaces'', False)]"
    by (simp add: main_results_eq Let_def health_requests_def health_ok_def passes_def
        caught_def as_exception_def net_api_refused_def cfg_multi_def world0_def)
  show "main_results_raising net_api_refused cfg_multi world0 =
     Inr [(''API Health'', False), (''API Root'', False), (''Dashboard'', True),
          (''Workspaces'', False)]"
    using free by (simp add: main_raising_caught rs)
  have "fst (main (caught net_api_refused) cfg_multi world0) = 1"
    using rs by (simp add: main_def Let_def case_prod_beta main_summary_fst
        main_results_def [symmetric])
  then show "fst (main_raising net_api_refused cfg_multi world0) = Inr 1"
    using free by (simp add: main_raising_caught)
qed

lemma main_raising_net_interrupt_health:
  "main_results_raising net_interrupt_health cfg_multi world0 =
     Inr [(''API Health'', True), (''API Root'', True), (''Dashboard'', True),
          (''Workspaces'', True)]"
proof -
  have free: "\<And>n rq c. length (gets world0) < n \<Longrightarrow>
      net_interrupt_health n rq \<noteq> Inl (BaseException c)"
    by (simp add: net_interrupt_health_def)
  have rs: "main_results (caught net_interrupt_health) cfg_multi world0 =
     [(''API Health'', True), (''API Root'', True), (''Dashboard'', True),
      (''Workspaces'', True)]"
    by (simp add: main_results_eq Let_def health_requests_def health_ok_def passes_def
        caught_def as_exception_def net_interrupt_health_def cfg_multi_def world0_def)
  show ?thesis
    using free by (simp add: main_raising_caught rs)
qed

section \<open>The claims\<close>

text \<open>
  C1. When \<open>test_endpoint\<close> receives a response, it returns true if and only if the
  status code of the response equals the expected status or is one of 200, 301, 302, 304;
  every other status code gives false.
\<close>

theorem test_endpoint_status:
  assumes "net (length (gets s)) \<lparr>url = u, timeout = t, allow_redirects = True\<rparr> = Inr r"
  shows "fst (test_endpoint net u name e t s) \<longleftrightarrow>
           status_code r = e \<or> status_code r \<in> {200, 301, 302, 304}"
  using assms by (simp add: test_endpoint_fst passes_def)

theorem test_endpoint_status_witness:
  "net_404 (length (gets world0)) \<lparr>url = ''http://api'', timeout = 10, allow_redirects = True\<rparr>
     = Inr \<lparr>status_code = 404, json = None\<rparr>
   \<and> fst (test_endpoint net_404 ''http://api'' ''API Root'' 404 10 world0)
   \<and> \<not> fst (test_endpoint net_404 ''http://api'' ''API Root'' 200 10 world0)"
  using test_endpoint_status [of net_404 world0 "''http://api''" 10
      "\<lparr>status_code = 404, json = None\<rparr>" "''API Root''" 404]
    test_endpoint_status [of net_404 world0 "''http://api''" 10
      "\<lparr>status_code = 404, json = None\<rparr>" "''API Root''" 200]
  by (simp add: net_404_def)

text \<open>
  C4, as stated, fails: a \<open>KeyboardInterrupt\<close> raised by the GET is not caught by
  \<open>except Exception\<close>; it leaves \<open>test_endpoint\<close>, which returns nothing.
\<close>

theorem test_endpoint_interrupt_counterexample:
  "test_endpoint_raising net_interrupt ''http://api'' ''API Root'' 200 10 world0 =
     (Inl ''KeyboardInterrupt'',
      \<lparr>gets = [req ''http://api''], out = [Testing ''API Root'' ''http://api'']\<rparr>)"
  by (simp add: test_endpoint_raising_def test_endpoint_try_raising_def
        requests_get_raising_def net_interrupt_def world0_def print_def Let_def)

text \<open>
  C4, amended. When the GET raises an instance of \<open>Exception\<close> (connection failure,
  timeout or any other instance), \<open>test_endpoint\<close> returns false to its caller and the
  exception goes no further: the request is logged and the line of the matching
  \<open>except\<close> clause is printed after the \<open>Testing\<close> line. When the GET raises an
  exception that is not an instance of \<open>Exception\<close>, that exception leaves
  \<open>test_endpoint\<close> after the \<open>Testing\<close> line. \<open>test_endpoint\<close> returns a
  boolean exactly when the GET raises no exception of the second kind.
\<close>

theorem test_endpoint_raising_exception:
  "(net (length (gets s)) \<lparr>url = u, timeout = t, allow_redirects = True\<rparr> = Inl (Exception x) \<longrightarrow>
      test_endpoint_raising net u name e t s =
        (Inr False,
         s\<lparr>gets := gets s @ [\<lparr>url = u, timeout = t, allow_redirects = True\<rparr>],
           out := out s @ [Testing name u,
             (case x of ConnectionError \<Rightarrow> ConnectionFailed
              | Timeout \<Rightarrow> TimeoutAfter t
              | OtherException m \<Rightarrow> Error m)]\<rparr>))
   \<and> (net (length (gets s)) \<lparr>url = u, timeout = t, allow_redirects = True\<rparr> = Inl (BaseException c) \<longrightarrow>
      test_endpoint_raising net u name e t s =
        (Inl c,
         s\<lparr>gets := gets s @ [\<lparr>url = u, timeout = t, allow_redirects = True\<rparr>],
           out := out s @ [Testing name u]\<rparr>))
   \<and> ((\<exists>b. fst (test_endpoint_raising net u name e t s) = Inr b) \<longleftrightarrow>
        (\<forall>c. net (length (gets s)) \<lparr>url = u, timeout = t, allow_redirects = True\<rparr>
               \<noteq> Inl (BaseException c)))"
proof (intro conjI impI)
  assume "net (length (gets s)) \<lparr>url = u, timeout = t, allow_redirects = True\<rparr> = Inl (Exception x)"
  then show "test_endpoint_raising net u name e t s =
        (Inr False,
         s\<lparr>gets := gets s @ [\<lparr>url = u, timeout = t, allow_redirects = True\<rparr>],
           out := out s @ [Testing name u,
             (case x of ConnectionError \<Rightarrow> ConnectionFailed
              | Timeout \<Rightarrow> TimeoutAfter t
              | OtherException m \<Rightarrow> Error m)]\<rparr>)"
    by (simp add: test_endpoint_raising_def test_endpoint_try_raising_def
          requests_get_raising_def print_def Let_def split: exn.splits)
next
  assume "net (length (gets s)) \<lparr>url = u, timeout = t, allow_redirects = True\<rparr> = Inl (BaseException c)"
  then show "test_endpoint_raising net u name e t s =
        (Inl c,
         s\<lparr>gets := gets s @ [\<lparr>url = u, timeout = t, allow_redirects = True\<rparr>],
           out := out s @ [Testing name u]\<rparr>)"
    by (simp add: test_endpoint_raising_def test_endpoint_try_raising_def
          requests_get_raising_def print_def Let_def)
next
  show "(\<exists>b. fst (test_endpoint_raising net u name e t s) = Inr b) \<longleftrightarrow>
        (\<forall>c. net (length (gets s)) \<lparr>url = u, timeout = t, allow_redirects = True\<rparr>
               \<noteq> Inl (BaseException c))"
    by (auto simp add: test_endpoint_raising_def test_endpoint_try_raising_def
          requests_get_raising_def Let_def split: sum.splits raised.splits exn.splits)
qed

theorem test_endpoint_raising_exception_witness:
  "net_api_refused (length (gets world0)) (req ''http://api'') = Inl (Exception ConnectionError)
   \<and> test_endpoint_raising net_api_refused ''http://api'' ''API Root'' 200 10 world0 =
       (Inr False, \<lparr>gets = [req ''http://api''],
                    out = [Testing ''API Root'' ''http://api'', ConnectionFailed]\<rparr>)
   \<and> net_interrupt (length (gets world0)) (req ''http://api'')
       = Inl (BaseException ''KeyboardInterrupt'')
   \<and> fst (test_endpoint_raising net_interrupt ''http://api'' ''API Root'' 200 10 world0)
       = Inl ''KeyboardInterrupt''"
proof -
  have a: "net_api_refused (length (gets world0)) (req ''http://api'')
      = Inl (Exception ConnectionError)"
    by (simp add: net_api_refused_def)
  have b: "net_interrupt (length (gets world0)) (req ''http://api'')
      = Inl (BaseException ''KeyboardInterrupt'')"
    by (simp add: net_interrupt_def)
  note t1 = test_endpoint_raising_exception [of net_api_refused world0 "''http://api''" 10
      ConnectionError "''API Root''" 200]
  note t2 = test_endpoint_raising_exception [of net_interrupt world0 "''http://api''" 10 _
      "''API Root''" 200 "''KeyboardInterrupt''"]
  from t1 a have r1: "test_endpoint_raising net_api_refused ''http://api'' ''API Root'' 200 10 world0 =
       (Inr False, \<lparr>gets = [req ''http://api''],
                    out = [Testing ''API Root'' ''http://api'', ConnectionFailed]\<rparr>)"
    by (simp add: world0_def)
  from t2 b have r2: "fst (test_endpoint_raising net_interrupt ''http://api'' ''API Root'' 200 10 world0)
       = Inl ''KeyboardInterrupt''"
    by simp
  from a r1 b r2 show ?thesis by blast
qed

text \<open>
  C2. \<open>main\<close> returns exit code 0 if and only if every entry of the results list has
  passed, and returns 1 otherwise.
\<close>

theorem main_exit_code:
  "fst (main net cfg s) = (if \<forall>r \<in> set (main_results net cfg s). snd r then 0 else 1)"
  by (simp add: main_def main_results_def Let_def case_prod_beta main_summary_fst)

theorem main_exit_code_witness:
  "main_results net_ok cfg_multi world0 =
     [(''API Health'', True), (''API Root'', True), (''Dashboard'', True), (''Workspaces'', True)]
   \<and> fst (main net_ok cfg_multi world0) = 0
   \<and> main_results net_500 cfg_single world0 =
     [(''API Health'', False), (''API Root'', False), (''Dashboard'', False)]
   \<and> fst (main net_500 cfg_single world0) = 1"
  using main_exit_code [of net_ok cfg_multi world0] main_exit_code [of net_500 cfg_single world0]
  by (simp add: main_results_net_ok main_results_net_500)

text \<open>
  C3. The Workspaces entry is in the results list of \<open>main\<close> if and only if
  \<open>AUTH_MODE\<close> is exactly the string \<open>multi-tenant\<close>; for any other value the results
  list has exactly 3 entries.
\<close>

theorem workspaces_iff_multi_tenant:
  "(''Workspaces'' \<in> set (map fst (main_results net cfg s)) \<longleftrightarrow> auth_mode cfg = ''multi-tenant'')
   \<and> (auth_mode cfg \<noteq> ''multi-tenant'' \<longrightarrow> length (main_results net cfg s) = 3)"
  by (simp add: main_results_def main_checks_names main_checks_length)

theorem workspaces_iff_multi_tenant_witness:
  "auth_mode cfg_single \<noteq> ''multi-tenant''
   \<and> ''Workspaces'' \<notin> set (map fst (main_results net_500 cfg_single world0))
   \<and> length (main_results net_500 cfg_single world0) = 3
   \<and> auth_mode cfg_multi = ''multi-tenant''
   \<and> ''Workspaces'' \<in> set (map fst (main_results net_ok cfg_multi world0))"
  using workspaces_iff_multi_tenant [of net_500 cfg_single world0]
    workspaces_iff_multi_tenant [of net_ok cfg_multi world0]
  by (simp add: cfg_single_def cfg_multi_def)

text \<open>
  C5, as stated, fails: when the GET of the API root check is interrupted from the
  keyboard, the exception leaves \<open>main\<close>: the dashboard and workspaces checks are not
  run and no summary is printed.
\<close>

theorem main_interrupt_counterexample:
  "main_raising net_interrupt_root cfg_multi world0 =
     (Inl ''KeyboardInterrupt'',
      \<lparr>gets = [req ''http://api/health'', req ''http://api''],
       out = [Rule, Title ''Dittofeed Deployment Test'', Rule, Plain ''Configuration:'',
              ConfigValue ''API URL'' ''http://api'', ConfigValue ''Dashboard URL'' ''http://dash'',
              ConfigValue ''Auth Mode'' ''multi-tenant'',
              Rule, Title ''1. External Endpoint Tests'', Rule,
              HealthJson ''{}'', Testing ''API Root'' ''http://api'']\<rparr>)"
  by (simp add: main_raising_def main_banner_def main_checks_raising_def
        test_api_health_raising_def test_api_health_try_raising_def test_api_root_raising_def
        test_endpoint_raising_def test_endpoint_try_raising_def requests_get_raising_def
        print_header_def print_def net_interrupt_root_def cfg_multi_def world0_def Let_def)

text \<open>
  C5, amended. Provided that no GET after the first of the run raises an exception that
  is not an instance of \<open>Exception\<close> (the first GET is the health check's own, under a
  bare \<open>except\<close>, and may raise anything), \<open>main\<close> runs every configured check and
  returns: the results list has exactly one entry per configured check, a GET for the URL
  of every configured check is issued during the run, and the summary (header, result
  lines and the total) is printed after everything printed before. In particular, when
  every GET to the API URL and to its health path raises a connection error, both API
  entries are false and the fourth request of the run is still the dashboard's, whose
  answer alone decides the Dashboard entry.
\<close>

theorem main_raising_runs_every_check:
  assumes free: "\<forall>n rq c. net (Suc (length (gets s) + n)) rq \<noteq> Inl (BaseException c)"
  shows "\<exists>rs code pre post.
     main_results_raising net cfg s = Inr rs
   \<and> fst (main_raising net cfg s) = Inr code
   \<and> map fst rs =
       [''API Health'', ''API Root'', ''Dashboard'']
         @ (if auth_mode cfg = ''multi-tenant'' then [''Workspaces''] else [])
   \<and> set ([req (api_url cfg @ ''/health''), req (api_url cfg), req (dashboard_url cfg)]
           @ (if auth_mode cfg = ''multi-tenant'' then [req (api_url cfg @ ''/api/workspaces'')]
              else []))
       \<subseteq> set (drop (length (gets s)) (gets (snd (main_raising net cfg s))))
   \<and> out (snd (main_raising net cfg s)) =
         out s @ pre @ [Rule, Title ''Test Summary'', Rule, Plain ''Results:'']
           @ map (\<lambda>(name, result). ResultLine name result) rs
           @ [Total (int (length (filter snd rs))) (int (length rs))] @ post
   \<and> ((\<forall>n. net n (req (api_url cfg @ ''/health'')) = Inl (Exception ConnectionError)
            \<and> net n (req (api_url cfg)) = Inl (Exception ConnectionError)) \<longrightarrow>
        take 3 rs =
          [(''API Health'', False), (''API Root'', False),
           (''Dashboard'',
            passes_raising 200 (net (length (gets s) + 3) (req (dashboard_url cfg))))]
        \<and> gets (snd (main_raising net cfg s)) ! (length (gets s) + 3) = req (dashboard_url cfg))"
proof -
  have free': "\<And>n rq c. length (gets s) < n \<Longrightarrow> net n rq \<noteq> Inl (BaseException c)"
  proof -
    fix n rq c
    assume "length (gets s) < n"
    then have "n = Suc (length (gets s) + (n - Suc (length (gets s))))" by simp
    with free show "net n rq \<noteq> Inl (BaseException c)" by metis
  qed
  let ?net = "caught net"
  let ?rs = "main_results ?net cfg s"
  have m: "main_raising net cfg s = (Inr (fst (main ?net cfg s)), snd (main ?net cfg s))"
    and r: "main_results_raising net cfg s = Inr ?rs"
    using free' by (simp_all add: main_raising_caught)
  note c = main_completed_run [of ?net cfg s]
  from c obtain pre post where o: "out (snd (main ?net cfg s)) =
         out s @ pre @ [Rule, Title ''Test Summary'', Rule, Plain ''Results:'']
           @ map (\<lambda>(name, result). ResultLine name result) ?rs
           @ [Total (int (length (filter snd ?rs))) (int (length ?rs))] @ post"
    by blast
  have down: "(\<forall>n. net n (req (api_url cfg @ ''/health'')) = Inl (Exception ConnectionError)
            \<and> net n (req (api_url cfg)) = Inl (Exception ConnectionError)) \<longrightarrow>
        take 3 ?rs =
          [(''API Health'', False), (''API Root'', False),
           (''Dashboard'',
            passes_raising 200 (net (length (gets s) + 3) (req (dashboard_url cfg))))]
        \<and> gets (snd (main ?net cfg s)) ! (length (gets s) + 3) = req (dashboard_url cfg)"
  proof
    assume a: "\<forall>n. net n (req (api_url cfg @ ''/health'')) = Inl (Exception ConnectionError)
            \<and> net n (req (api_url cfg)) = Inl (Exception ConnectionError)"
    then have "\<forall>n. ?net n (req (api_url cfg @ ''/health'')) = Inl ConnectionError
            \<and> ?net n (req (api_url cfg)) = Inl ConnectionError"
      by (simp add: caught_def as_exception_def)
    with c show "take 3 ?rs =
          [(''API Health'', False), (''API Root'', False),
           (''Dashboard'',
            passes_raising 200 (net (length (gets s) + 3) (req (dashboard_url cfg))))]
        \<and> gets (snd (main ?net cfg s)) ! (length (gets s) + 3) = req (dashboard_url cfg)"
      by (simp add: passes_caught)
  qed
  from c have n: "map fst ?rs =
       [''API Health'', ''API Root'', ''Dashboard'']
         @ (if auth_mode cfg = ''multi-tenant'' then [''Workspaces''] else [])"
    and g: "set ([req (api_url cfg @ ''/health''), req (api_url cfg), req (dashboard_url cfg)]
           @ (if auth_mode cfg = ''multi-tenant'' then [req (api_url cfg @ ''/api/workspaces'')]
              else []))
       \<subseteq> set (drop (length (gets s)) (gets (snd (main ?net cfg s))))"
    by blast+
  show ?thesis
    apply (rule exI [of _ ?rs])
    apply (rule exI [of _ "fst (main ?net cfg s)"])
    apply (rule exI [of _ pre])
    apply (rule exI [of _ post])
    using r m n g o down by simp
qed

theorem main_raising_runs_every_check_witness:
  "main_results_raising net_api_refused cfg_multi world0 =
     Inr [(''API Health'', False), (''API Root'', False), (''Dashboard'', True),
          (''Workspaces'', False)]
   \<and> fst (main_raising net_api_refused cfg_multi world0) = Inr 1
   \<and> gets (snd (main_raising net_api_refused cfg_multi world0)) ! 3 = req ''http://dash''
   \<and> main_results_raising net_interrupt_health cfg_multi world0 =
     Inr [(''API Health'', True), (''API Root'', True), (''Dashboard'', True),
          (''Workspaces'', True)]
   \<and> (\<exists>code. fst (main_raising net_interrupt_health cfg_multi world0) = Inr code)"
proof -
  have free: "\<forall>n rq c. net_api_refused (Suc (length (gets world0) + n)) rq \<noteq> Inl (BaseException c)"
    by (simp add: net_api_refused_def)
  have down: "\<forall>n. net_api_refused n (req (api_url cfg_multi @ ''/health''))
                 = Inl (Exception ConnectionError)
        \<and> net_api_refused n (req (api_url cfg_multi)) = Inl (Exception ConnectionError)"
    by (simp add: net_api_refused_def cfg_multi_def)
  from main_raising_runs_every_check [OF free, of cfg_multi] down
  have "gets (snd (main_raising net_api_refused cfg_multi world0)) ! (length (gets world0) + 3)
      = req (dashboard_url cfg_multi)"
    by blast
  then have g: "gets (snd (main_raising net_api_refused cfg_multi world0)) ! 3 = req ''http://dash''"
    by (simp add: world0_def cfg_multi_def)
  have free2: "\<forall>n rq c. net_interrupt_health (Suc (length (gets world0) + n)) rq
      \<noteq> Inl (BaseException c)"
    by (simp add: net_interrupt_health_def)
  from main_raising_runs_every_check [OF free2, of cfg_multi]
  have e: "\<exists>code. fst (main_raising net_interrupt_health cfg_multi world0) = Inr code"
    by blast
  from g e main_raising_net_api_refused main_raising_net_interrupt_health
  show ?thesis by blast
qed









text \<open>
  C9. When the first GET of \<open>test_api_health\<close> does not yield a status 200 whose body
  is JSON, a second GET goes to the same URL and the returned boolean is the pass rule
  applied to the second answer: two networks that both fail the first GET in this sense
  and agree on the second answer give the same boolean, whatever their first answers are.
\<close>

theorem health_fallback_second_get:
  assumes "\<not> health_ok (net (length (gets s)) (req (api_url cfg @ ''/health'')))"
  shows "gets (snd (test_api_health net cfg s)) =
           gets s @ [req (api_url cfg @ ''/health''), req (api_url cfg @ ''/health'')]
         \<and> fst (test_api_health net cfg s) =
             passes 200 (net (Suc (length (gets s))) (req (api_url cfg @ ''/health'')))
         \<and> (\<forall>net'. \<not> health_ok (net' (length (gets s)) (req (api_url cfg @ ''/health'')))
                  \<and> net' (Suc (length (gets s))) (req (api_url cfg @ ''/health'')) =
                    net (Suc (length (gets s))) (req (api_url cfg @ ''/health''))
               \<longrightarrow> fst (test_api_health net' cfg s) = fst (test_api_health net cfg s))"
  using assms
  by (simp add: test_api_health_gets test_api_health_fst health_requests_def numeral_2_eq_2)

theorem health_fallback_second_get_witness:
  "\<not> health_ok (net_flaky (length (gets world0)) (req (api_url cfg_multi @ ''/health'')))
   \<and> gets (snd (test_api_health net_flaky cfg_multi world0)) =
       [req ''http://api/health'', req ''http://api/health'']
   \<and> \<not> fst (test_api_health net_flaky cfg_multi world0)
   \<and> \<not> health_ok (net_500 (length (gets world0)) (req (api_url cfg_multi @ ''/health'')))
   \<and> net_500 (Suc (length (gets world0))) (req (api_url cfg_multi @ ''/health'')) =
       net_flaky (Suc (length (gets world0))) (req (api_url cfg_multi @ ''/health''))
   \<and> fst (test_api_health net_500 cfg_multi world0) =
       fst (test_api_health net_flaky cfg_multi world0)"
proof -
  have bad: "\<not> health_ok (net_flaky (length (gets world0)) (req (api_url cfg_multi @ ''/health'')))"
    by (simp add: health_ok_def net_flaky_def world0_def)
  have bad': "\<not> health_ok (net_500 (length (gets world0)) (req (api_url cfg_multi @ ''/health'')))"
    by (simp add: health_ok_def net_500_def)
  have same: "net_500 (Suc (length (gets world0))) (req (api_url cfg_multi @ ''/health'')) =
       net_flaky (Suc (length (gets world0))) (req (api_url cfg_multi @ ''/health''))"
    by (simp add: net_500_def net_flaky_def)
  note t = health_fallback_second_get [of net_flaky world0 cfg_multi, OF bad]
  from t have g: "gets (snd (test_api_health net_flaky cfg_multi world0)) =
       [req ''http://api/health'', req ''http://api/health'']"
    by (simp add: world0_def cfg_multi_def)
  from t have f: "\<not> fst (test_api_health net_flaky cfg_multi world0)"
    by (simp add: passes_def net_flaky_def)
  from t bad' same have e: "fst (test_api_health net_500 cfg_multi world0) =
       fst (test_api_health net_flaky cfg_multi world0)"
    by blast
  from bad g f bad' same e show ?thesis by blast
qed

text \<open>
  C10. In every run the results list has 3 or 4 entries, named API Health, API Root,
  Dashboard and, in the case of 4 entries only, Workspaces, in this order; the run prints
  exactly one total line, whose passed count is the number of true entries and is at
  most the total; and \<open>main\<close> returns 0 or 1.
\<close>

theorem main_invariants:
  "(length (main_results net cfg s) = 3 \<or> length (main_results net cfg s) = 4)
   \<and> map fst (main_results net cfg s) =
       [''API Health'', ''API Root'', ''Dashboard'']
         @ (if length (main_results net cfg s) = 4 then [''Workspaces''] else [])
   \<and> totals (out (snd (main net cfg s))) =
       totals (out s) @ [(int (length (filter snd (main_results net cfg s))),
                          int (length (main_results net cfg s)))]
   \<and> length (filter snd (main_results net cfg s)) \<le> length (main_results net cfg s)
   \<and> (fst (main net cfg s) = 0 \<or> fst (main net cfg s) = 1)"
proof (intro conjI)
  show "length (main_results net cfg s) = 3 \<or> length (main_results net cfg s) = 4"
    by (simp add: main_results_def main_checks_length)
  show "map fst (main_results net cfg s) =
       [''API Health'', ''API Root'', ''Dashboard'']
         @ (if length (main_results net cfg s) = 4 then [''Workspaces''] else [])"
    by (simp add: main_results_def main_checks_names main_checks_length)
  show "totals (out (snd (main net cfg s))) =
       totals (out s) @ [(int (length (filter snd (main_results net cfg s))),
                          int (length (main_results net cfg s)))]"
    by (rule main_totals)
  show "length (filter snd (main_results net cfg s)) \<le> length (main_results net cfg s)"
    by (rule length_filter_le)
  show "fst (main net cfg s) = 0 \<or> fst (main net cfg s) = 1"
    by (simp add: main_def Let_def case_prod_beta main_summary_fst)
qed

theorem main_invariants_witness:
  "length (main_results net_500 cfg_single world0) = 3
   \<and> map fst (main_results net_500 cfg_single world0) = [''API Health'', ''API Root'', ''Dashboard'']
   \<and> totals (out (snd (main net_500 cfg_single world0))) = [(0, 3)]
   \<and> fst (main net_500 cfg_single world0) = 1
   \<and> length (main_results net_ok cfg_multi world0) = 4
   \<and> map fst (main_results net_ok cfg_multi world0) =
       [''API Health'', ''API Root'', ''Dashboard'', ''Workspaces'']
   \<and> totals (out (snd (main net_ok cfg_multi world0))) = [(4, 4)]"
proof -
  have e: "fst (main net_500 cfg_single world0) \<noteq> 0"
    by (simp add: main_def Let_def case_prod_beta main_summary_fst main_results_net_500
        main_results_def [symmetric])
  have o: "out world0 = []"
    by (simp add: world0_def)
  show ?thesis
    using main_invariants [of net_500 cfg_single world0] main_invariants [of net_ok cfg_multi world0] e
    by (simp add: main_results_net_500 main_results_net_ok o)
qed

end
